theory Spec2Isabelle
  imports Main
begin

section \<open>Data model\<close>

text \<open>
  \<^verbatim>\<open>enum GarageDoorState { Open = 1, Closed = 2 }\<close>.  The enum is numeric; at run time the
  field \<^verbatim>\<open>DeviceStatus\<close> of a polled record can hold any number or be missing, so a status
  is an \<open>int option\<close> (\<open>None\<close>: missing, or not a number) and the two enum members
  are the constants below.
\<close>

definition GarageDoorState_Open :: int where
  "GarageDoorState_Open = 1"

definition GarageDoorState_Closed :: int where
  "GarageDoorState_Closed = 2"

text \<open>The value of \<^verbatim>\<open>new Date(s).getTime()\<close>: a number of milliseconds, or NaN.\<close>

datatype jsnum = Num int | NaN

text \<open>\<^verbatim>\<open>interface Device\<close>; \<^verbatim>\<open>DeviceType\<close> is optional.\<close>

record Device =
  DeviceId :: string
  DeviceNickName :: string
  DeviceStatus :: "int option"
  LastOperationTimestamp :: string
  ProductCode :: string
  DeviceType :: "string option"

text \<open>The object \<^verbatim>\<open>deviceMeta = { DeviceType, ProductCode }\<close> of the constructor.\<close>

record DeviceMeta =
  meta_DeviceType :: "string option"
  meta_ProductCode :: string

text \<open>An optional argument of a call: left out, \<^verbatim>\<open>null\<close>, or a value.\<close>

datatype 'a jsarg = Undefined | Null | Supplied 'a

text \<open>A JavaScript error value, and the settlement of an awaited promise.\<close>

datatype error = Error string

datatype 'a outcome = Resolved 'a | Rejected error

text \<open>
  The values of the host platform's characteristics.
  \<^verbatim>\<open>Characteristic.CurrentDoorState\<close> is an enumeration of five values;
  \<^verbatim>\<open>Characteristic.TargetDoorState\<close> has the values OPEN = 0 and CLOSED = 1, and the
  value written by the host is compared with \<^verbatim>\<open>===\<close>, so it is kept as a number.
\<close>

datatype CurrentDoorState = OPEN | CLOSED | OPENING | CLOSING | STOPPED

definition TargetDoorState_OPEN :: int where
  "TargetDoorState_OPEN = 0"

definition TargetDoorState_CLOSED :: int where
  "TargetDoorState_CLOSED = 1"

subsection \<open>Observable effects\<close>

text \<open>
  Every log line and every call of the remote API is an event appended to the accessory's
  trace.  A log line is named after its message; the interpolated device fields are kept,
  the rendering of the state machine (\<^verbatim>\<open>${this.fsm}\<close>) is not.
\<close>

datatype logline =
    CheckingStatus
  | StatusFromApi "int option"
  | ResettingOpen "int option" string
  | ResettingClosed "int option" string
  | FailedToUnderstand "int option" string
  | SetTarget int
  | AttemptingOpenBut
  | AttemptingCloseBut
  | TransitionedOpen
  | TransitionedClosed
  | ProblemDetected error
  | GetTarget
  | GetCurrent
  | GetObstruction

datatype event =
    Log_debug logline
  | Log_info logline
  | Log_warn logline
  | Log_error logline
  | Api_getDeviceState string
  | Api_open string DeviceMeta
  | Api_close string DeviceMeta

text \<open>The two callbacks handed to \<^verbatim>\<open>setTimeout\<close> in \<^verbatim>\<open>setTargetDoorState\<close>.\<close>

datatype timer_callback = ConfirmOPEN | ConfirmCLOSED

section \<open>The per-accessory client adapter\<close>

text \<open>The operator \<^verbatim>\<open>??\<close>: the right operand replaces a left operand that is undefined or null.\<close>

definition nullish :: "'a jsarg \<Rightarrow> 'a \<Rightarrow> 'a" where
  "nullish devArg dflt = (case devArg of Undefined \<Rightarrow> dflt | Null \<Rightarrow> dflt | Supplied v \<Rightarrow> v)"

text \<open>
  \<^verbatim>\<open>open: async (deviceId, devArg?) => await boundOpen(deviceId, devArg ?? deviceMeta)\<close>,
  and the same for close.  \<open>boundOpen\<close> and \<open>boundClose\<close> are the underlying client's
  methods (the type \<^verbatim>\<open>NexxApiClient\<close> declares both); their result, of any type \<open>'r\<close>, is
  handed back as it is.
\<close>

definition clientAdapter_open ::
  "(string \<Rightarrow> DeviceMeta \<Rightarrow> 'r) \<Rightarrow> DeviceMeta \<Rightarrow> string \<Rightarrow> DeviceMeta jsarg \<Rightarrow> 'r" where
  "clientAdapter_open boundOpen deviceMeta deviceId devArg =
     boundOpen deviceId (nullish devArg deviceMeta)"

definition clientAdapter_close ::
  "(string \<Rightarrow> DeviceMeta \<Rightarrow> 'r) \<Rightarrow> DeviceMeta \<Rightarrow> string \<Rightarrow> DeviceMeta jsarg \<Rightarrow> 'r" where
  "clientAdapter_close boundClose deviceMeta deviceId devArg =
     boundClose deviceId (nullish devArg deviceMeta)"

section \<open>The door state machine\<close>

text \<open>
  Modelled from the spec: the class \<^verbatim>\<open>FSM\<close> of \<^verbatim>\<open>./nxg200_state_machine\<close> is imported by the
  accessory but its file is not among the sources.  The fields \<^verbatim>\<open>state\<close>, \<^verbatim>\<open>lastTransition\<close>
  and \<^verbatim>\<open>deviceId\<close> are the ones the accessory reads and writes (\<^verbatim>\<open>state\<close> is compared with
  the strings \<^verbatim>\<open>'open'\<close>, \<^verbatim>\<open>'closed'\<close> and \<^verbatim>\<open>'stuck'\<close>); the \<open>transitioning\<close> flag and
  the operations follow sections 3 and 4.1 of the specification.
\<close>

record FSM =
  state :: string
  transitioning :: bool
  lastTransition :: jsnum
  deviceId :: string

text \<open>
  Modelled from the spec: \<^verbatim>\<open>resetOpen()\<close> and \<^verbatim>\<open>resetClosed()\<close> force the state to the
  named terminal value and clear \<open>transitioning\<close>.  The accessory calls them without an
  argument and writes \<^verbatim>\<open>lastTransition\<close> itself beforehand.
\<close>

definition resetOpen :: "FSM \<Rightarrow> FSM" where
  "resetOpen f = f\<lparr>state := ''open'', transitioning := False\<rparr>"

definition resetClosed :: "FSM \<Rightarrow> FSM" where
  "resetClosed f = f\<lparr>state := ''closed'', transitioning := False\<rparr>"

text \<open>Modelled from the spec: \<^verbatim>\<open>stuck()\<close> forces the state to stuck and clears \<open>transitioning\<close>.\<close>

definition stuck :: "FSM \<Rightarrow> FSM" where
  "stuck f = f\<lparr>state := ''stuck'', transitioning := False\<rparr>"

text \<open>Modelled from the spec: \<^verbatim>\<open>isTransitioning()\<close> is a query without side effects.\<close>

definition isTransitioning :: "FSM \<Rightarrow> bool" where
  "isTransitioning f = transitioning f"

text \<open>
  Modelled from the spec: \<^verbatim>\<open>can(direction)\<close> is true iff the state is not the target state
  of the direction and \<open>transitioning\<close> is false.
\<close>

datatype direction = Dir_open | Dir_close

definition target_state :: "direction \<Rightarrow> string" where
  "target_state dir = (case dir of Dir_open \<Rightarrow> ''open'' | Dir_close \<Rightarrow> ''closed'')"

definition can :: "direction \<Rightarrow> FSM \<Rightarrow> bool" where
  "can dir f = (state f \<noteq> target_state dir \<and> \<not> transitioning f)"

text \<open>
  Modelled from the spec: \<^verbatim>\<open>open()\<close> and \<^verbatim>\<open>close()\<close> set \<open>transitioning\<close>, invoke the
  client's operation with the device id and no metadata, and await it.  The part before
  the await returns the machine and the call made; the part after it takes the settlement
  of the call: on success the command returns, on failure the machine goes to stuck and
  the error is thrown to the caller (\<open>Inl\<close>).  The specification gives a successful
  command no further effect on the machine; when the class clears the flag afterwards is
  not described there, and no result below depends on it.
\<close>

definition FSM_command_begin :: "(string \<Rightarrow> DeviceMeta jsarg \<Rightarrow> 'r) \<Rightarrow> FSM \<Rightarrow> FSM \<times> 'r" where
  "FSM_command_begin client_op f = (f\<lparr>transitioning := True\<rparr>, client_op (deviceId f) Undefined)"

definition FSM_command_end :: "unit outcome \<Rightarrow> FSM \<Rightarrow> (error \<times> FSM) + FSM" where
  "FSM_command_end settled f =
     (case settled of
        Resolved _ \<Rightarrow> Inr f
      | Rejected e \<Rightarrow> Inl (e, stuck f))"

section \<open>The accessory\<close>

text \<open>
  The state of one \<^verbatim>\<open>NXG200\<close> object: its state machine, the metadata bound into its
  client adapter, the value last written to the CurrentDoorState characteristic of its
  service, the one-shot timers it has scheduled (delay in milliseconds and callback), the
  period of its recurring timer, and the trace of its log lines and remote calls.
\<close>

record NXG200 =
  fsm :: FSM
  deviceMeta :: DeviceMeta
  currentDoorState :: CurrentDoorState
  timers :: "(nat \<times> timer_callback) list"
  interval_ms :: nat
  trace :: "event list"

definition emit :: "event \<Rightarrow> NXG200 \<Rightarrow> NXG200" where
  "emit ev a = a\<lparr>trace := trace a @ [ev]\<rparr>"

definition setCurrentDoorState :: "CurrentDoorState \<Rightarrow> NXG200 \<Rightarrow> NXG200" where
  "setCurrentDoorState v a = a\<lparr>currentDoorState := v\<rparr>"

definition setTimeout :: "timer_callback \<Rightarrow> nat \<Rightarrow> NXG200 \<Rightarrow> NXG200" where
  "setTimeout cb delay a = a\<lparr>timers := timers a @ [(delay, cb)]\<rparr>"

subsection \<open>resetDeviceState\<close>

text \<open>
  \<open>getTime\<close> stands for \<^verbatim>\<open>new Date(s).getTime()\<close>.  The timestamp is written before the
  switch, so in all three branches.
\<close>

definition resetDeviceState :: "(string \<Rightarrow> jsnum) \<Rightarrow> Device \<Rightarrow> NXG200 \<Rightarrow> NXG200" where
  "resetDeviceState getTime device a =
     (let a1 = a\<lparr>fsm := (fsm a)\<lparr>lastTransition := getTime (LastOperationTimestamp device)\<rparr>\<rparr> in
      if DeviceStatus device = Some GarageDoorState_Open then
        (let a2 = emit (Log_info (ResettingOpen (DeviceStatus device) (LastOperationTimestamp device))) a1
         in a2\<lparr>fsm := resetOpen (fsm a2)\<rparr>)
      else if DeviceStatus device = Some GarageDoorState_Closed then
        (let a2 = emit (Log_info (ResettingClosed (DeviceStatus device) (LastOperationTimestamp device))) a1
         in a2\<lparr>fsm := resetClosed (fsm a2)\<rparr>)
      else
        (let a2 = emit (Log_info (FailedToUnderstand (DeviceStatus device) (LastOperationTimestamp device))) a1
         in a2\<lparr>fsm := stuck (fsm a2)\<rparr>))"

subsection \<open>The constructor\<close>

text \<open>
  \<open>fsm0\<close> is the machine \<^verbatim>\<open>new FSM()\<close> returns and \<open>cur0\<close> the value the service's
  CurrentDoorState characteristic holds when the accessory is created or restored; both
  come from outside this file.  The constructor binds the device id and the metadata,
  calls \<^verbatim>\<open>resetDeviceState(device)\<close> and starts the recurring timer.
\<close>

definition NXG200_constructor :: "(string \<Rightarrow> jsnum) \<Rightarrow> FSM \<Rightarrow> CurrentDoorState \<Rightarrow> Device \<Rightarrow> NXG200" where
  "NXG200_constructor getTime fsm0 cur0 device =
     (let a = \<lparr>fsm = fsm0\<lparr>deviceId := DeviceId device\<rparr>,
               deviceMeta = \<lparr>meta_DeviceType = DeviceType device, meta_ProductCode = ProductCode device\<rparr>,
               currentDoorState = cur0, timers = [], interval_ms = 0, trace = []\<rparr>;
          a1 = resetDeviceState getTime device a
      in a1\<lparr>interval_ms := 60000\<rparr>)"

subsection \<open>The recurring reconciliation callback\<close>

text \<open>
  The callback of \<^verbatim>\<open>setInterval\<close> is an async function with one await, on
  \<^verbatim>\<open>getDeviceState\<close>.  \<open>interval_begin\<close> is the part that runs up to the await (the flag says
  whether the poll was issued and the callback is suspended), \<open>interval_resume\<close> the part
  that runs once the poll has settled; other callbacks of the event loop can run between
  the two.  A rejected poll rejects the callback's promise and changes nothing.
\<close>

definition interval_begin :: "NXG200 \<Rightarrow> NXG200 \<times> bool" where
  "interval_begin a =
     (let a1 = emit (Log_debug CheckingStatus) a in
      if \<not> isTransitioning (fsm a1)
      then (emit (Api_getDeviceState (deviceId (fsm a1))) a1, True)
      else (a1, False))"

definition interval_resume :: "(string \<Rightarrow> jsnum) \<Rightarrow> Device outcome \<Rightarrow> NXG200 \<Rightarrow> NXG200" where
  "interval_resume getTime settled a =
     (case settled of
        Rejected e \<Rightarrow> a
      | Resolved d \<Rightarrow>
          (let a1 = emit (Log_debug (StatusFromApi (DeviceStatus d))) a in
           if state (fsm a1) = ''open'' \<and> DeviceStatus d \<noteq> Some GarageDoorState_Open then
             resetDeviceState getTime d a1
           else if state (fsm a1) = ''closed'' \<and> DeviceStatus d \<noteq> Some GarageDoorState_Closed then
             resetDeviceState getTime d a1
           else if state (fsm a1) = ''stuck'' \<and>
                   (DeviceStatus d = Some GarageDoorState_Open \<or> DeviceStatus d = Some GarageDoorState_Closed) then
             resetDeviceState getTime d a1
           else a1))"

text \<open>One firing with nothing else running between the check and the settled poll.\<close>

definition interval_fire :: "(string \<Rightarrow> jsnum) \<Rightarrow> Device outcome \<Rightarrow> NXG200 \<Rightarrow> NXG200" where
  "interval_fire getTime settled a =
     (case interval_begin a of
        (a1, True) \<Rightarrow> interval_resume getTime settled a1
      | (a1, False) \<Rightarrow> a1)"

subsection \<open>setTargetDoorState\<close>

text \<open>
  The handler of a write to TargetDoorState is an async function with one await, on
  \<^verbatim>\<open>this.fsm.open()\<close> or \<^verbatim>\<open>this.fsm.close()\<close>, inside a try block.
  \<open>setTargetDoorState_begin\<close> runs up to that await: it returns the direction of the
  command that is in flight, or \<open>None\<close> when \<^verbatim>\<open>can\<close> was false and the handler ran to its
  end.  The client of the machine is the adapter, over the remote \<^verbatim>\<open>open\<close> and \<^verbatim>\<open>close\<close>
  whose calls are recorded in the trace.
\<close>

definition setTargetDoorState_begin :: "int \<Rightarrow> NXG200 \<Rightarrow> NXG200 \<times> direction option" where
  "setTargetDoorState_begin val a =
     (let a1 = emit (Log_debug (SetTarget val)) a in
      if val = TargetDoorState_OPEN then
        (let a2 = setCurrentDoorState OPENING a1 in
         if can Dir_open (fsm a2) then
           (case FSM_command_begin (clientAdapter_open Api_open (deviceMeta a2)) (fsm a2) of
              (f, call) \<Rightarrow> (emit call (a2\<lparr>fsm := f\<rparr>), Some Dir_open))
         else
           (setTimeout ConfirmOPEN 12000 (emit (Log_warn AttemptingOpenBut) a2), None))
      else
        (let a2 = setCurrentDoorState CLOSING a1 in
         if can Dir_close (fsm a2) then
           (case FSM_command_begin (clientAdapter_close Api_close (deviceMeta a2)) (fsm a2) of
              (f, call) \<Rightarrow> (emit call (a2\<lparr>fsm := f\<rparr>), Some Dir_close))
         else
           (setTimeout ConfirmCLOSED 12000 (emit (Log_warn AttemptingCloseBut) a2), None)))"

text \<open>The catch block: log the error, force the machine to stuck, report STOPPED.\<close>

definition catch_block :: "error \<Rightarrow> NXG200 \<Rightarrow> NXG200" where
  "catch_block e a =
     (let a1 = emit (Log_error (ProblemDetected e)) a;
          a2 = a1\<lparr>fsm := stuck (fsm a1)\<rparr>
      in setCurrentDoorState STOPPED a2)"

text \<open>
  The rest of the try block once the command has settled: \<open>Inl\<close> is an exception leaving
  the try block, with the accessory as it is at that moment.
\<close>

definition try_block_resume :: "direction \<Rightarrow> unit outcome \<Rightarrow> NXG200 \<Rightarrow> (error \<times> NXG200) + NXG200" where
  "try_block_resume dir settled a =
     (case FSM_command_end settled (fsm a) of
        Inl (e, f) \<Rightarrow> Inl (e, a\<lparr>fsm := f\<rparr>)
      | Inr f \<Rightarrow>
          Inr (setTimeout (case dir of Dir_open \<Rightarrow> ConfirmOPEN | Dir_close \<Rightarrow> ConfirmCLOSED) 12000
                 (a\<lparr>fsm := f\<rparr>)))"

text \<open>The settlement of the handler's own promise: \<open>Rejected\<close> would reach the host.\<close>

definition setTargetDoorState_resume :: "direction \<Rightarrow> unit outcome \<Rightarrow> NXG200 \<Rightarrow> NXG200 outcome" where
  "setTargetDoorState_resume dir settled a =
     (case try_block_resume dir settled a of
        Inr a1 \<Rightarrow> Resolved a1
      | Inl (e, a1) \<Rightarrow> Resolved (catch_block e a1))"

text \<open>
  One request with nothing else running while the command is in flight; \<open>settled\<close> is
  how the remote call settles if one is made.
\<close>

definition setTargetDoorState :: "int \<Rightarrow> unit outcome \<Rightarrow> NXG200 \<Rightarrow> NXG200 outcome" where
  "setTargetDoorState val settled a =
     (case setTargetDoorState_begin val a of
        (a1, Some dir) \<Rightarrow> setTargetDoorState_resume dir settled a1
      | (a1, None) \<Rightarrow> Resolved a1)"

text \<open>The callback of a confirmation timer, run when the timer fires.\<close>

definition fireTimer :: "timer_callback \<Rightarrow> NXG200 \<Rightarrow> NXG200" where
  "fireTimer cb a =
     (case cb of
        ConfirmOPEN \<Rightarrow> emit (Log_debug TransitionedOpen) (setCurrentDoorState OPEN a)
      | ConfirmCLOSED \<Rightarrow> emit (Log_debug TransitionedClosed) (setCurrentDoorState CLOSED a))"

text \<open>
  No timer is ever cancelled (the accessory never calls \<^verbatim>\<open>clearTimeout\<close>), so each pending
  timer fires once its delay has passed: the event loop takes the oldest one and runs its
  callback.
\<close>

definition fire_next_timer :: "NXG200 \<Rightarrow> NXG200" where
  "fire_next_timer a =
     (case timers a of
        [] \<Rightarrow> a
      | (delay, cb) # rest \<Rightarrow> fireTimer cb (a\<lparr>timers := rest\<rparr>))"

subsection \<open>The getters\<close>

definition getTargetDoorState :: "NXG200 \<Rightarrow> int \<times> NXG200" where
  "getTargetDoorState a =
     (let a1 = emit (Log_debug GetTarget) a in
      (if state (fsm a1) = ''open'' then TargetDoorState_OPEN
       else if state (fsm a1) = ''closed'' then TargetDoorState_CLOSED
       else TargetDoorState_CLOSED, a1))"

definition getCurrentDoorState :: "NXG200 \<Rightarrow> CurrentDoorState \<times> NXG200" where
  "getCurrentDoorState a =
     (let a1 = emit (Log_debug GetCurrent) a in
      (if state (fsm a1) = ''open'' then
         (if isTransitioning (fsm a1) then OPENING else OPEN)
       else if state (fsm a1) = ''closed'' then
         (if isTransitioning (fsm a1) then CLOSING else CLOSED)
       else STOPPED, a1))"

definition getObstructionDetected :: "NXG200 \<Rightarrow> bool \<times> NXG200" where
  "getObstructionDetected a =
     (let a1 = emit (Log_debug GetObstruction) a in (state (fsm a1) = ''stuck'', a1))"

section \<open>The platform: discovery and registration\<close>

text \<open>A value read from the user's configuration, and JavaScript's truthiness of it.\<close>

datatype jsval = JUndefined | JNull | JBool bool | JNum int | JStr string

definition truthy :: "jsval \<Rightarrow> bool" where
  "truthy v =
     (case v of
        JUndefined \<Rightarrow> False
      | JNull \<Rightarrow> False
      | JBool b \<Rightarrow> b
      | JNum n \<Rightarrow> n \<noteq> 0
      | JStr s \<Rightarrow> s \<noteq> [])"

record Options =
  opt_includeGate :: jsval
  opt_treatGateAsGarage :: jsval

text \<open>The platform configuration; \<open>None\<close>: the \<^verbatim>\<open>options\<close> object is absent.\<close>

record PlatformConfig =
  options :: "Options option"

text \<open>\<^verbatim>\<open>!!(config && config.options && config.options.includeGate)\<close>\<close>

definition includeGate :: "PlatformConfig \<Rightarrow> bool" where
  "includeGate config =
     (case options config of None \<Rightarrow> False | Some opts \<Rightarrow> truthy (opt_includeGate opts))"

text \<open>\<^verbatim>\<open>(config && config.options && config.options.treatGateAsGarage) !== false\<close>\<close>

definition treatGateAsGarage :: "PlatformConfig \<Rightarrow> bool" where
  "treatGateAsGarage config =
     (case options config of None \<Rightarrow> True | Some opts \<Rightarrow> opt_treatGateAsGarage opts \<noteq> JBool False)"

text \<open>Some members of the host's enumeration of accessory categories.\<close>

datatype Categories = OTHER | BRIDGE | FAN | GARAGE_DOOR_OPENER | LIGHTBULB | DOOR_LOCK | DOOR

definition isGarage :: "Device \<Rightarrow> bool" where
  "isGarage device =
     (DeviceType device = Some ''NexxGarage'' \<or> ProductCode device \<in> set [''NXG200'', ''NXG300''])"

definition isGate :: "Device \<Rightarrow> bool" where
  "isGate device = (DeviceType device = Some ''NexxGate'' \<or> ProductCode device = ''NXGT1'')"

text \<open>The conditional expression that decides the category.\<close>

definition category :: "bool \<Rightarrow> bool \<Rightarrow> Categories" where
  "category is_gate treat_gate_as_garage =
     (if is_gate \<and> treat_gate_as_garage then GARAGE_DOOR_OPENER else GARAGE_DOOR_OPENER)"

text \<open>
  What \<^verbatim>\<open>discoverDevices\<close> does to the host, in order: a device skipped, a cached accessory
  restored (by UUID), a new accessory created with a name, a UUID and a category and then
  registered, a cached accessory unregistered.
\<close>

datatype action =
    Skip string
  | Restore string
  | Register string string Categories
  | Unregister string

text \<open>
  The first loop.  \<open>uuid_generate\<close> is the host's \<^verbatim>\<open>hap.uuid.generate\<close>, \<open>accessories\<close> the
  UUIDs of the cached accessories (the loop does not add to them).  The result is the
  actions and the list \<^verbatim>\<open>discoveredDeviceIds\<close>.
\<close>

fun registerDevices ::
  "(string \<Rightarrow> string) \<Rightarrow> bool \<Rightarrow> bool \<Rightarrow> string list \<Rightarrow> Device list \<Rightarrow> action list \<times> string list" where
  "registerDevices uuid_generate incl treat accessories [] = ([], [])"
| "registerDevices uuid_generate incl treat accessories (device # devices) =
     (if \<not> isGarage device \<and> \<not> (incl \<and> isGate device) then
        (case registerDevices uuid_generate incl treat accessories devices of
           (acts, ids) \<Rightarrow> (Skip (DeviceId device) # acts, ids))
      else
        (let uuid = uuid_generate (DeviceId device);
             cat = category (isGate device) treat;
             act = (if uuid \<in> set accessories then Restore uuid
                    else Register (DeviceNickName device) uuid cat)
         in case registerDevices uuid_generate incl treat accessories devices of
              (acts, ids) \<Rightarrow> (act # acts, uuid # ids)))"

definition discoverDevices ::
  "(string \<Rightarrow> string) \<Rightarrow> PlatformConfig \<Rightarrow> string list \<Rightarrow> Device list \<Rightarrow> action list" where
  "discoverDevices uuid_generate config accessories devices =
     (case registerDevices uuid_generate (includeGate config) (treatGateAsGarage config) accessories devices of
        (acts, discoveredDeviceIds) \<Rightarrow>
          acts @ map Unregister (filter (\<lambda>u. u \<notin> set discoveredDeviceIds) accessories))"

text \<open>The categories given to newly registered accessories, in order.\<close>

fun registered_categories :: "action list \<Rightarrow> Categories list" where
  "registered_categories [] = []"
| "registered_categories (Register name uuid cat # acts) = cat # registered_categories acts"
| "registered_categories (act # acts) = registered_categories acts"

section \<open>Notions of the specification\<close>

text \<open>
  The specification's words for the reconciliation step, to be compared with the code:
  local and remote disagree when local is open and remote is not Open, local is closed and
  remote is not Closed, or local is stuck and remote is Open or Closed.
\<close>

definition spec_disagree :: "string \<Rightarrow> int option \<Rightarrow> bool" where
  "spec_disagree local remote =
     ((local = ''open'' \<and> remote \<noteq> Some GarageDoorState_Open) \<or>
      (local = ''closed'' \<and> remote \<noteq> Some GarageDoorState_Closed) \<or>
      (local = ''stuck'' \<and> (remote = Some GarageDoorState_Open \<or> remote = Some GarageDoorState_Closed)))"

text \<open>
  The reset dispatch table: Open gives resetOpen, Closed gives resetClosed, anything else
  or a missing status gives stuck; with it, the machine a reset from a device record
  leaves, its timestamp taken from the record.
\<close>

definition spec_reset_state :: "int option \<Rightarrow> string" where
  "spec_reset_state remote =
     (if remote = Some GarageDoorState_Open then ''open''
      else if remote = Some GarageDoorState_Closed then ''closed''
      else ''stuck'')"

definition spec_reset :: "(string \<Rightarrow> jsnum) \<Rightarrow> Device \<Rightarrow> FSM \<Rightarrow> FSM" where
  "spec_reset getTime device f =
     \<lparr>state = spec_reset_state (DeviceStatus device), transitioning = False,
      lastTransition = getTime (LastOperationTimestamp device), deviceId = deviceId f\<rparr>"

text \<open>The line a reset logs, which tells the three branches apart in the trace.\<close>

definition reset_logline :: "Device \<Rightarrow> event" where
  "reset_logline device =
     (if DeviceStatus device = Some GarageDoorState_Open then
        Log_info (ResettingOpen (DeviceStatus device) (LastOperationTimestamp device))
      else if DeviceStatus device = Some GarageDoorState_Closed then
        Log_info (ResettingClosed (DeviceStatus device) (LastOperationTimestamp device))
      else Log_info (FailedToUnderstand (DeviceStatus device) (LastOperationTimestamp device)))"

text \<open>The events of a firing that polls, before any reset.\<close>

definition poll_events :: "NXG200 \<Rightarrow> Device \<Rightarrow> event list" where
  "poll_events a d =
     [Log_debug CheckingStatus, Api_getDeviceState (deviceId (fsm a)),
      Log_debug (StatusFromApi (DeviceStatus d))]"

section \<open>Sample inputs\<close>

definition sample_getTime :: "string \<Rightarrow> jsnum" where
  "sample_getTime s = (if s = ''1970-01-01T00:00:01Z'' then Num 1000 else NaN)"

definition sample_fsm :: "string \<Rightarrow> bool \<Rightarrow> FSM" where
  "sample_fsm s t = \<lparr>state = s, transitioning = t, lastTransition = Num 0, deviceId = ''dev1''\<rparr>"

definition sample_meta :: DeviceMeta where
  "sample_meta = \<lparr>meta_DeviceType = Some ''NexxGarage'', meta_ProductCode = ''NXG200''\<rparr>"

definition sample_accessory :: "string \<Rightarrow> bool \<Rightarrow> NXG200" where
  "sample_accessory s t =
     \<lparr>fsm = sample_fsm s t, deviceMeta = sample_meta, currentDoorState = CLOSED,
      timers = [], interval_ms = 60000, trace = []\<rparr>"

definition sample_device :: "int option \<Rightarrow> Device" where
  "sample_device st =
     \<lparr>DeviceId = ''dev1'', DeviceNickName = ''Garage'', DeviceStatus = st,
      LastOperationTimestamp = ''1970-01-01T00:00:01Z'', ProductCode = ''NXG200'',
      DeviceType = Some ''NexxGarage''\<rparr>"

definition sample_gate :: Device where
  "sample_gate =
     \<lparr>DeviceId = ''gate1'', DeviceNickName = ''Gate'', DeviceStatus = Some 2,
      LastOperationTimestamp = ''1970-01-01T00:00:01Z'', ProductCode = ''NXGT1'',
      DeviceType = Some ''NexxGate''\<rparr>"

definition sample_config :: "jsval \<Rightarrow> PlatformConfig" where
  "sample_config treat =
     \<lparr>options = Some \<lparr>opt_includeGate = JBool True, opt_treatGateAsGarage = treat\<rparr>\<rparr>"

section \<open>Notions of the requests\<close>

text \<open>
  Names for what a request for the value \<open>val\<close> asks for: the direction of its command
  (the handler takes every value other than OPEN as a request to close), the callback of
  its timer, the terminal value of CurrentDoorState, and the call its command makes.
\<close>

definition requested_direction :: "int \<Rightarrow> direction" where
  "requested_direction val = (if val = TargetDoorState_OPEN then Dir_open else Dir_close)"

definition confirmation :: "int \<Rightarrow> timer_callback" where
  "confirmation val = (if val = TargetDoorState_OPEN then ConfirmOPEN else ConfirmCLOSED)"

definition terminal :: "int \<Rightarrow> CurrentDoorState" where
  "terminal val = (if val = TargetDoorState_OPEN then OPEN else CLOSED)"

definition remote_call :: "int \<Rightarrow> NXG200 \<Rightarrow> event" where
  "remote_call val a =
     (if val = TargetDoorState_OPEN then Api_open (deviceId (fsm a)) (deviceMeta a)
      else Api_close (deviceId (fsm a)) (deviceMeta a))"

text \<open>The timers pending once the handler has settled; \<open>None\<close> if it rejected.\<close>

definition pending_timers :: "NXG200 outcome \<Rightarrow> (nat \<times> timer_callback) list option" where
  "pending_timers settled = (case settled of Resolved a \<Rightarrow> Some (timers a) | Rejected e \<Rightarrow> None)"

text \<open>
  A remote operation that counts its invocations: it takes the number of calls so far,
  always fails, and returns the arguments it was given and the new count.
\<close>

definition counting_client :: "string \<Rightarrow> DeviceMeta \<Rightarrow> nat \<Rightarrow> (unit outcome \<times> (string \<times> DeviceMeta)) \<times> nat" where
  "counting_client i m calls = ((Rejected (Error ''unreachable''), (i, m)), Suc calls)"

text \<open>
  An interleaving on the event loop: a firing of the recurring timer checks an idle, closed
  machine and issues its poll; while the poll is awaited, a request to open starts its
  command; then the poll settles, with a status that is neither Open nor Closed.
\<close>

definition race_polling :: NXG200 where
  "race_polling = fst (interval_begin (sample_accessory ''closed'' False))"

definition race_commanded :: NXG200 where
  "race_commanded = fst (setTargetDoorState_begin TargetDoorState_OPEN race_polling)"

definition race_corrected :: NXG200 where
  "race_corrected = interval_resume sample_getTime (Resolved (sample_device (Some 3))) race_commanded"

section \<open>What the functions compute\<close>

subsection \<open>Reset and reconciliation\<close>

lemma emit_simps:
  "fsm (emit ev a) = fsm a" "trace (emit ev a) = trace a @ [ev]"
  "timers (emit ev a) = timers a" "currentDoorState (emit ev a) = currentDoorState a"
  "deviceMeta (emit ev a) = deviceMeta a" "interval_ms (emit ev a) = interval_ms a"
  by (simp_all add: emit_def)

lemma resetDeviceState_eq:
  "resetDeviceState getTime d a =
     a\<lparr>fsm := spec_reset getTime d (fsm a), trace := trace a @ [reset_logline d]\<rparr>"
  by (simp add: resetDeviceState_def spec_reset_def spec_reset_state_def reset_logline_def
      emit_def resetOpen_def resetClosed_def stuck_def Let_def)

lemma interval_begin_transitioning:
  "isTransitioning (fsm a) \<Longrightarrow> interval_begin a = (emit (Log_debug CheckingStatus) a, False)"
  by (simp add: interval_begin_def emit_def Let_def)

lemma interval_begin_idle:
  "\<not> isTransitioning (fsm a) \<Longrightarrow>
   interval_begin a =
     (a\<lparr>trace := trace a @ [Log_debug CheckingStatus, Api_getDeviceState (deviceId (fsm a))]\<rparr>, True)"
  by (simp add: interval_begin_def emit_def Let_def)

lemma interval_resume_Resolved:
  "interval_resume getTime (Resolved d) a =
     (if spec_disagree (state (fsm a)) (DeviceStatus d)
      then a\<lparr>fsm := spec_reset getTime d (fsm a),
              trace := trace a @ [Log_debug (StatusFromApi (DeviceStatus d)), reset_logline d]\<rparr>
      else a\<lparr>trace := trace a @ [Log_debug (StatusFromApi (DeviceStatus d))]\<rparr>)"
  by (auto simp add: interval_resume_def resetDeviceState_eq spec_disagree_def emit_def Let_def)

lemma interval_fire_Resolved:
  "\<not> isTransitioning (fsm a) \<Longrightarrow>
   interval_fire getTime (Resolved d) a =
     (if spec_disagree (state (fsm a)) (DeviceStatus d)
      then a\<lparr>fsm := spec_reset getTime d (fsm a),
              trace := trace a @ poll_events a d @ [reset_logline d]\<rparr>
      else a\<lparr>trace := trace a @ poll_events a d\<rparr>)"
  by (simp add: interval_fire_def interval_begin_idle interval_resume_Resolved poll_events_def)

lemma interval_fire_Rejected:
  "\<not> isTransitioning (fsm a) \<Longrightarrow>
   interval_fire getTime (Rejected e) a =
     a\<lparr>trace := trace a @ [Log_debug CheckingStatus, Api_getDeviceState (deviceId (fsm a))]\<rparr>"
  by (simp add: interval_fire_def interval_begin_idle interval_resume_def)

lemma spec_reset_agrees:
  "\<not> spec_disagree (state (spec_reset getTime d f)) (DeviceStatus d)"
  by (auto simp add: spec_disagree_def spec_reset_def spec_reset_state_def)

lemma spec_reset_idle: "\<not> isTransitioning (spec_reset getTime d f)"
  by (simp add: isTransitioning_def spec_reset_def)

lemma constructor_eq:
  "NXG200_constructor getTime fsm0 cur0 device =
     \<lparr>fsm = spec_reset getTime device (fsm0\<lparr>deviceId := DeviceId device\<rparr>),
      deviceMeta = \<lparr>meta_DeviceType = DeviceType device, meta_ProductCode = ProductCode device\<rparr>,
      currentDoorState = cur0, timers = [], interval_ms = 60000,
      trace = [reset_logline device]\<rparr>"
  by (simp add: NXG200_constructor_def resetDeviceState_eq Let_def)

lemma constructor_starts_interval:
  "interval_ms (NXG200_constructor getTime fsm0 cur0 device) = 60000"
  by (simp add: constructor_eq)

lemma interval_fire_fsm_Resolved:
  "\<not> isTransitioning (fsm a) \<Longrightarrow>
   fsm (interval_fire getTime (Resolved d) a) =
     (if spec_disagree (state (fsm a)) (DeviceStatus d) then spec_reset getTime d (fsm a) else fsm a)"
  by (simp add: interval_fire_Resolved)

lemma spec_reset_deviceId: "deviceId (spec_reset getTime d f) = deviceId f"
  by (simp add: spec_reset_def)

lemma interval_fire_agree:
  "\<not> isTransitioning (fsm b) \<Longrightarrow> \<not> spec_disagree (state (fsm b)) (DeviceStatus d) \<Longrightarrow>
   interval_fire getTime (Resolved d) b = b\<lparr>trace := trace b @ poll_events b d\<rparr>"
  by (simp add: interval_fire_Resolved)

lemma interval_fire_settles:
  assumes "\<not> isTransitioning (fsm a)"
  shows "\<not> isTransitioning (fsm (interval_fire getTime (Resolved d) a)) \<and>
         \<not> spec_disagree (state (fsm (interval_fire getTime (Resolved d) a))) (DeviceStatus d) \<and>
         poll_events (interval_fire getTime (Resolved d) a) d = poll_events a d"
  using assms
  by (simp add: interval_fire_Resolved spec_reset_idle spec_reset_agrees poll_events_def
      spec_reset_deviceId)

lemma interval_fire_twice_Resolved:
  assumes "\<not> isTransitioning (fsm a)"
  shows "interval_fire getTime (Resolved d) (interval_fire getTime (Resolved d) a) =
     (interval_fire getTime (Resolved d) a)
       \<lparr>trace := trace (interval_fire getTime (Resolved d) a) @ poll_events a d\<rparr>"
proof -
  let ?b = "interval_fire getTime (Resolved d) a"
  have s: "\<not> isTransitioning (fsm ?b)" "\<not> spec_disagree (state (fsm ?b)) (DeviceStatus d)"
    "poll_events ?b d = poll_events a d"
    using interval_fire_settles [OF assms] by blast+
  have "interval_fire getTime (Resolved d) ?b = ?b\<lparr>trace := trace ?b @ poll_events ?b d\<rparr>"
    by (rule interval_fire_agree [OF s(1) s(2)])
  then show ?thesis by (simp only: s(3))
qed

lemma interval_fire_twice_fsm:
  assumes "\<not> isTransitioning (fsm a)"
  shows "fsm (interval_fire getTime settled (interval_fire getTime settled a)) =
         fsm (interval_fire getTime settled a)"
proof (cases settled)
  case (Resolved d)
  show ?thesis
    unfolding Resolved by (subst interval_fire_twice_Resolved [OF assms]) simp
next
  case (Rejected e)
  then show ?thesis using assms by (simp add: interval_fire_Rejected)
qed

lemma race_polling_eq:
  "race_polling = (sample_accessory ''closed'' False)
     \<lparr>trace := [Log_debug CheckingStatus, Api_getDeviceState ''dev1'']\<rparr>"
  by (simp add: race_polling_def interval_begin_idle isTransitioning_def sample_accessory_def sample_fsm_def)

subsection \<open>Requests\<close>

lemma setTargetDoorState_begin_refused:
  "\<not> can (requested_direction val) (fsm a) \<Longrightarrow>
   setTargetDoorState_begin val a =
     (a\<lparr>currentDoorState := (if val = TargetDoorState_OPEN then OPENING else CLOSING),
        timers := timers a @ [(12000, confirmation val)],
        trace := trace a @ [Log_debug (SetTarget val),
                 Log_warn (if val = TargetDoorState_OPEN then AttemptingOpenBut else AttemptingCloseBut)]\<rparr>,
      None)"
  by (cases "val = TargetDoorState_OPEN")
    (simp_all add: setTargetDoorState_begin_def requested_direction_def confirmation_def
      emit_def setCurrentDoorState_def setTimeout_def Let_def)

lemma setTargetDoorState_begin_issued:
  "can (requested_direction val) (fsm a) \<Longrightarrow>
   setTargetDoorState_begin val a =
     (a\<lparr>fsm := (fsm a)\<lparr>transitioning := True\<rparr>,
        currentDoorState := (if val = TargetDoorState_OPEN then OPENING else CLOSING),
        trace := trace a @ [Log_debug (SetTarget val), remote_call val a]\<rparr>,
      Some (requested_direction val))"
  by (cases "val = TargetDoorState_OPEN")
    (simp_all add: setTargetDoorState_begin_def requested_direction_def remote_call_def
      FSM_command_begin_def clientAdapter_open_def clientAdapter_close_def nullish_def
      emit_def setCurrentDoorState_def Let_def)

lemma setTargetDoorState_resume_Resolved:
  "setTargetDoorState_resume dir (Resolved u) a =
     Resolved (a\<lparr>timers := timers a @
        [(12000, case dir of Dir_open \<Rightarrow> ConfirmOPEN | Dir_close \<Rightarrow> ConfirmCLOSED)]\<rparr>)"
  by (simp add: setTargetDoorState_resume_def try_block_resume_def FSM_command_end_def
      setTimeout_def)

lemma setTargetDoorState_resume_Rejected:
  "setTargetDoorState_resume dir (Rejected e) a =
     Resolved (a\<lparr>fsm := (fsm a)\<lparr>state := ''stuck'', transitioning := False\<rparr>,
                currentDoorState := STOPPED,
                trace := trace a @ [Log_error (ProblemDetected e)]\<rparr>)"
  by (simp add: setTargetDoorState_resume_def try_block_resume_def FSM_command_end_def
      catch_block_def stuck_def emit_def setCurrentDoorState_def Let_def)

lemma confirmation_of_direction:
  "(case requested_direction val of Dir_open \<Rightarrow> ConfirmOPEN | Dir_close \<Rightarrow> ConfirmCLOSED) = confirmation val"
  by (simp add: requested_direction_def confirmation_def)

lemma setTargetDoorState_refused:
  "\<not> can (requested_direction val) (fsm a) \<Longrightarrow>
   setTargetDoorState val settled a =
     Resolved (a\<lparr>currentDoorState := (if val = TargetDoorState_OPEN then OPENING else CLOSING),
        timers := timers a @ [(12000, confirmation val)],
        trace := trace a @ [Log_debug (SetTarget val),
                 Log_warn (if val = TargetDoorState_OPEN then AttemptingOpenBut else AttemptingCloseBut)]\<rparr>)"
  by (simp add: setTargetDoorState_def setTargetDoorState_begin_refused)

lemma setTargetDoorState_succeeded:
  "can (requested_direction val) (fsm a) \<Longrightarrow>
   setTargetDoorState val (Resolved u) a =
     Resolved (a\<lparr>fsm := (fsm a)\<lparr>transitioning := True\<rparr>,
        currentDoorState := (if val = TargetDoorState_OPEN then OPENING else CLOSING),
        timers := timers a @ [(12000, confirmation val)],
        trace := trace a @ [Log_debug (SetTarget val), remote_call val a]\<rparr>)"
  by (simp add: setTargetDoorState_def setTargetDoorState_begin_issued
      setTargetDoorState_resume_Resolved confirmation_of_direction)

lemma setTargetDoorState_failed:
  "can (requested_direction val) (fsm a) \<Longrightarrow>
   setTargetDoorState val (Rejected e) a =
     Resolved (a\<lparr>fsm := (fsm a)\<lparr>state := ''stuck'', transitioning := False\<rparr>,
                currentDoorState := STOPPED,
                trace := trace a @ [Log_debug (SetTarget val), remote_call val a,
                                    Log_error (ProblemDetected e)]\<rparr>)"
  by (simp add: setTargetDoorState_def setTargetDoorState_begin_issued
      setTargetDoorState_resume_Rejected)

lemma fireTimer_confirmation:
  "fireTimer (confirmation val) b =
     b\<lparr>currentDoorState := terminal val,
       trace := trace b @ [Log_debug (if val = TargetDoorState_OPEN then TransitionedOpen else TransitionedClosed)]\<rparr>"
  by (simp add: fireTimer_def confirmation_def terminal_def emit_def setCurrentDoorState_def)

lemma setTargetDoorState_timers:
  "pending_timers (setTargetDoorState val settled a) =
     Some (if can (requested_direction val) (fsm a) \<and> (\<exists>e. settled = Rejected e)
           then timers a else timers a @ [(12000, confirmation val)])"
proof (cases "can (requested_direction val) (fsm a)")
  case False
  then show ?thesis by (simp add: setTargetDoorState_refused pending_timers_def)
next
  case True
  then show ?thesis
    by (cases settled) (simp_all add: setTargetDoorState_succeeded setTargetDoorState_failed pending_timers_def)
qed

subsection \<open>The metadata bound into the adapter\<close>

lemma constructor_deviceMeta:
  "deviceMeta (NXG200_constructor getTime fsm0 cur0 device) =
     \<lparr>meta_DeviceType = DeviceType device, meta_ProductCode = ProductCode device\<rparr>"
  by (simp add: constructor_eq)

lemma constructor_deviceId:
  "deviceId (fsm (NXG200_constructor getTime fsm0 cur0 device)) = DeviceId device"
  by (simp add: constructor_eq spec_reset_def)

lemma constructor_trace:
  "trace (NXG200_constructor getTime fsm0 cur0 device) = [reset_logline device]"
  by (simp add: constructor_eq)

lemma issued_trace:
  "can (requested_direction val) (fsm a) \<Longrightarrow>
   trace (fst (setTargetDoorState_begin val a)) =
     trace a @ [Log_debug (SetTarget val), remote_call val a]"
  by (simp add: setTargetDoorState_begin_issued)

lemma deviceMeta_interval_fire: "deviceMeta (interval_fire getTime settled a) = deviceMeta a"
  by (cases settled)
    (simp_all add: interval_fire_def interval_begin_def interval_resume_def resetDeviceState_eq
      emit_def Let_def)

lemma deviceMeta_setTargetDoorState:
  "setTargetDoorState val settled a = Resolved a' \<Longrightarrow> deviceMeta a' = deviceMeta a"
proof (cases "can (requested_direction val) (fsm a)")
  case False
  assume "setTargetDoorState val settled a = Resolved a'"
  with False show ?thesis by (auto simp add: setTargetDoorState_refused)
next
  case True
  assume r: "setTargetDoorState val settled a = Resolved a'"
  show ?thesis
  proof (cases settled)
    case (Resolved u)
    with True r show ?thesis by (auto simp add: setTargetDoorState_succeeded)
  next
    case (Rejected e)
    with True r show ?thesis by (auto simp add: setTargetDoorState_failed)
  qed
qed

lemma deviceMeta_fireTimer: "deviceMeta (fireTimer cb a) = deviceMeta a"
  by (cases cb) (simp_all add: fireTimer_def emit_def setCurrentDoorState_def)

subsection \<open>Discovery\<close>

lemma registerDevices_treat:
  "registerDevices gen incl t1 accessories devices = registerDevices gen incl t2 accessories devices"
  by (induction devices) (simp_all only: registerDevices.simps category_def if_cancel)

lemma registered_categories_append_Unregister:
  "registered_categories (acts @ map Unregister us) = registered_categories acts"
proof (induction acts rule: registered_categories.induct)
  case 1
  show ?case by (induction us) simp_all
qed simp_all

lemma registerDevices_categories:
  "set (registered_categories (fst (registerDevices gen incl treat accessories devices))) \<subseteq> {GARAGE_DOOR_OPENER}"
  by (induction devices) (auto simp add: category_def Let_def split: prod.splits)

section \<open>The claims\<close>

subsection \<open>C1: a firing that finds the machine transitioning does nothing\<close>

text \<open>
  C1, as amended.  For every firing of the recurring timer, if \<^verbatim>\<open>isTransitioning()\<close> is true
  when the firing checks it, the firing issues no poll (it does not suspend) and applies no
  correction: whatever a poll would have returned, the accessory is left as it was but for
  the one debug line.
\<close>

theorem interval_skips_while_transitioning:
  "isTransitioning (fsm a) \<Longrightarrow>
   \<not> snd (interval_begin a) \<and>
   interval_fire getTime settled a = a\<lparr>trace := trace a @ [Log_debug CheckingStatus]\<rparr>"
  by (simp add: interval_fire_def interval_begin_transitioning emit_def)

text \<open>The theorem at a machine that is open and transitioning.\<close>

theorem interval_skips_witness:
  "isTransitioning (fsm (sample_accessory ''open'' True)) \<and>
   \<not> snd (interval_begin (sample_accessory ''open'' True)) \<and>
   interval_fire sample_getTime (Resolved (sample_device (Some 2))) (sample_accessory ''open'' True) =
     (sample_accessory ''open'' True)\<lparr>trace := [Log_debug CheckingStatus]\<rparr>"
  using interval_skips_while_transitioning [of "sample_accessory ''open'' True" sample_getTime
      "Resolved (sample_device (Some 2))"]
  by (simp add: isTransitioning_def sample_accessory_def sample_fsm_def)

text \<open>
  C1 as stated also says that the correction logic never runs while \<open>transitioning\<close> is
  true.  The check is made once, before the awaited poll, and is not repeated when the
  poll settles: in the interleaving above the firing suspends, the request to open sets
  \<open>transitioning\<close>, and the settled poll then forces the machine to stuck and clears the
  flag while the command is in flight.
\<close>

theorem interval_corrects_during_command:
  "snd (interval_begin (sample_accessory ''closed'' False)) \<and>
   snd (setTargetDoorState_begin TargetDoorState_OPEN race_polling) = Some Dir_open \<and>
   isTransitioning (fsm race_commanded) \<and>
   state (fsm race_commanded) = ''closed'' \<and>
   fsm race_corrected =
     \<lparr>state = ''stuck'', transitioning = False, lastTransition = Num 1000, deviceId = ''dev1''\<rparr> \<and>
   trace race_corrected =
     [Log_debug CheckingStatus, Api_getDeviceState ''dev1'',
      Log_debug (SetTarget 0), Api_open ''dev1'' sample_meta,
      Log_debug (StatusFromApi (Some 3)),
      Log_info (FailedToUnderstand (Some 3) ''1970-01-01T00:00:01Z'')]"
  by (simp add: race_corrected_def race_commanded_def race_polling_eq
      interval_begin_idle isTransitioning_def sample_accessory_def sample_fsm_def
      setTargetDoorState_begin_def TargetDoorState_OPEN_def can_def target_state_def
      FSM_command_begin_def clientAdapter_open_def nullish_def emit_def setCurrentDoorState_def
      interval_resume_Resolved spec_disagree_def spec_reset_def spec_reset_state_def
      reset_logline_def sample_device_def sample_getTime_def
      GarageDoorState_Open_def GarageDoorState_Closed_def Let_def)

subsection \<open>C2: which reset, and when\<close>

text \<open>
  C2, as amended.  For every firing with the machine not transitioning and a poll that
  returns a record, a reset is applied exactly when local and remote disagree; at initial
  setup the constructor applies a reset whatever the state of the fresh machine.  In both,
  the reset is the one the remote status dictates (Open: open, Closed: closed, anything
  else or missing: stuck), \<open>transitioning\<close> is cleared and \<^verbatim>\<open>lastTransition\<close> is taken from
  the record's operation timestamp; the line logged names the branch.
\<close>

theorem reset_exactly_on_disagreement:
  "(\<not> isTransitioning (fsm a) \<longrightarrow>
      interval_fire getTime (Resolved d) a =
        (if spec_disagree (state (fsm a)) (DeviceStatus d)
         then a\<lparr>fsm := spec_reset getTime d (fsm a),
                 trace := trace a @ poll_events a d @ [reset_logline d]\<rparr>
         else a\<lparr>trace := trace a @ poll_events a d\<rparr>)) \<and>
   fsm (NXG200_constructor getTime fsm0 cur0 device) =
     spec_reset getTime device (fsm0\<lparr>deviceId := DeviceId device\<rparr>) \<and>
   trace (NXG200_constructor getTime fsm0 cur0 device) = [reset_logline device]"
  by (simp add: interval_fire_Resolved constructor_eq)

text \<open>
  The theorem at an open, idle machine: a poll returning Closed resets it to closed with
  the record's timestamp; a poll returning Open changes nothing but the trace.
\<close>

theorem reset_exactly_on_disagreement_witness:
  "\<not> isTransitioning (fsm (sample_accessory ''open'' False)) \<and>
   fsm (interval_fire sample_getTime (Resolved (sample_device (Some 2))) (sample_accessory ''open'' False)) =
     \<lparr>state = ''closed'', transitioning = False, lastTransition = Num 1000, deviceId = ''dev1''\<rparr> \<and>
   interval_fire sample_getTime (Resolved (sample_device (Some 1))) (sample_accessory ''open'' False) =
     (sample_accessory ''open'' False)
       \<lparr>trace := [Log_debug CheckingStatus, Api_getDeviceState ''dev1'', Log_debug (StatusFromApi (Some 1))]\<rparr>"
  using reset_exactly_on_disagreement [of "sample_accessory ''open'' False" sample_getTime
      "sample_device (Some 2)" "sample_fsm ''open'' False" CLOSED "sample_device (Some 2)"]
    reset_exactly_on_disagreement [of "sample_accessory ''open'' False" sample_getTime
      "sample_device (Some 1)" "sample_fsm ''open'' False" CLOSED "sample_device (Some 1)"]
  by (simp add: isTransitioning_def sample_accessory_def sample_fsm_def sample_device_def
      sample_getTime_def spec_disagree_def spec_reset_def spec_reset_state_def poll_events_def
      GarageDoorState_Open_def GarageDoorState_Closed_def)

text \<open>
  C2 as stated has the reset at initial setup applied exactly when local and remote
  disagree.  The constructor calls \<^verbatim>\<open>resetDeviceState\<close> without comparing: a fresh machine
  that is closed, given a device that is Closed, is reset (timestamp overwritten, line
  logged), and likewise open with Open and stuck with a missing status.
\<close>

theorem constructor_resets_without_disagreement:
  "\<not> spec_disagree (state (sample_fsm ''closed'' False)) (DeviceStatus (sample_device (Some 2))) \<and>
   lastTransition (sample_fsm ''closed'' False) = Num 0 \<and>
   fsm (NXG200_constructor sample_getTime (sample_fsm ''closed'' False) CLOSED (sample_device (Some 2))) =
     \<lparr>state = ''closed'', transitioning = False, lastTransition = Num 1000, deviceId = ''dev1''\<rparr> \<and>
   trace (NXG200_constructor sample_getTime (sample_fsm ''closed'' False) CLOSED (sample_device (Some 2))) =
     [Log_info (ResettingClosed (Some 2) ''1970-01-01T00:00:01Z'')] \<and>
   \<not> spec_disagree (state (sample_fsm ''open'' False)) (DeviceStatus (sample_device (Some 1))) \<and>
   trace (NXG200_constructor sample_getTime (sample_fsm ''open'' False) CLOSED (sample_device (Some 1))) =
     [Log_info (ResettingOpen (Some 1) ''1970-01-01T00:00:01Z'')] \<and>
   \<not> spec_disagree (state (sample_fsm ''stuck'' False)) (DeviceStatus (sample_device None)) \<and>
   trace (NXG200_constructor sample_getTime (sample_fsm ''stuck'' False) CLOSED (sample_device None)) =
     [Log_info (FailedToUnderstand None ''1970-01-01T00:00:01Z'')]"
  by (simp add: constructor_eq sample_fsm_def sample_device_def sample_getTime_def
      spec_disagree_def spec_reset_def spec_reset_state_def reset_logline_def
      GarageDoorState_Open_def GarageDoorState_Closed_def)

subsection \<open>C3: when the confirmation timer is scheduled\<close>

text \<open>
  C3, as amended.  The 12-second confirmation timer is scheduled whenever the try block
  runs to its end: when \<^verbatim>\<open>can()\<close> is false and no command is issued, and when the command
  issued succeeds.  When the command fails, no timer is scheduled.
\<close>

theorem timer_scheduled_unless_command_fails:
  "(\<not> can (requested_direction val) (fsm a) \<longrightarrow>
      pending_timers (setTargetDoorState val settled a) = Some (timers a @ [(12000, confirmation val)])) \<and>
   (can (requested_direction val) (fsm a) \<longrightarrow>
      pending_timers (setTargetDoorState val (Resolved u) a) = Some (timers a @ [(12000, confirmation val)]) \<and>
      pending_timers (setTargetDoorState val (Rejected e) a) = Some (timers a))"
  by (simp add: setTargetDoorState_timers)

text \<open>
  The theorem at a closed, idle machine: a request to close is refused and schedules the
  timer, a request to open schedules it if the command succeeds and not if it fails.
\<close>

theorem timer_scheduled_unless_command_fails_witness:
  "\<not> can (requested_direction TargetDoorState_CLOSED) (fsm (sample_accessory ''closed'' False)) \<and>
   pending_timers (setTargetDoorState TargetDoorState_CLOSED (Resolved ()) (sample_accessory ''closed'' False))
     = Some [(12000, ConfirmCLOSED)] \<and>
   can (requested_direction TargetDoorState_OPEN) (fsm (sample_accessory ''closed'' False)) \<and>
   pending_timers (setTargetDoorState TargetDoorState_OPEN (Resolved ()) (sample_accessory ''closed'' False))
     = Some [(12000, ConfirmOPEN)] \<and>
   pending_timers (setTargetDoorState TargetDoorState_OPEN (Rejected (Error ''timeout'')) (sample_accessory ''closed'' False))
     = Some []"
  using timer_scheduled_unless_command_fails [of TargetDoorState_CLOSED "sample_accessory ''closed'' False"
      "Resolved ()" "()" "Error ''timeout''"]
    timer_scheduled_unless_command_fails [of TargetDoorState_OPEN "sample_accessory ''closed'' False"
      "Resolved ()" "()" "Error ''timeout''"]
  by (simp add: can_def requested_direction_def target_state_def confirmation_def
      TargetDoorState_OPEN_def TargetDoorState_CLOSED_def sample_accessory_def sample_fsm_def)

text \<open>
  C3 as stated has no timer when no command is issued.  A request to open an open, idle
  machine is refused by \<^verbatim>\<open>can('open')\<close> and issues no command; it leaves a timer pending,
  which fires and reports OPEN.
\<close>

theorem timer_scheduled_without_command:
  "\<not> can Dir_open (fsm (sample_accessory ''open'' False)) \<and>
   snd (setTargetDoorState_begin TargetDoorState_OPEN (sample_accessory ''open'' False)) = None \<and>
   setTargetDoorState TargetDoorState_OPEN (Resolved ()) (sample_accessory ''open'' False) =
     Resolved ((sample_accessory ''open'' False)
       \<lparr>currentDoorState := OPENING, timers := [(12000, ConfirmOPEN)],
        trace := [Log_debug (SetTarget 0), Log_warn AttemptingOpenBut]\<rparr>) \<and>
   fire_next_timer ((sample_accessory ''open'' False)
       \<lparr>currentDoorState := OPENING, timers := [(12000, ConfirmOPEN)],
        trace := [Log_debug (SetTarget 0), Log_warn AttemptingOpenBut]\<rparr>) =
     (sample_accessory ''open'' False)
       \<lparr>currentDoorState := OPEN,
        trace := [Log_debug (SetTarget 0), Log_warn AttemptingOpenBut, Log_debug TransitionedOpen]\<rparr>"
  by (simp add: setTargetDoorState_def setTargetDoorState_begin_def can_def target_state_def
      TargetDoorState_OPEN_def sample_accessory_def sample_fsm_def emit_def
      setCurrentDoorState_def setTimeout_def fire_next_timer_def fireTimer_def Let_def)

subsection \<open>C4: the confirmation timer is unconditional\<close>

text \<open>
  C4.  A timer scheduled by a request for \<open>val\<close> has a delay of 12000 ms, and when it fires,
  in whatever state \<open>b\<close> the accessory then is, it writes the requested terminal value to
  CurrentDoorState and logs one debug line: it makes no remote call and neither reads nor
  changes the state machine.
\<close>

theorem confirmation_timer_unconditional:
  assumes "setTargetDoorState val settled a = Resolved a'"
    and "timers a' = timers a @ [(delay, cb)]"
  shows "delay = 12000 \<and>
     fireTimer cb b =
       b\<lparr>currentDoorState := terminal val,
         trace := trace b @ [Log_debug (if val = TargetDoorState_OPEN then TransitionedOpen else TransitionedClosed)]\<rparr>"
proof -
  have "pending_timers (setTargetDoorState val settled a) = Some (timers a')"
    using assms(1) by (simp add: pending_timers_def)
  then have "timers a @ [(delay, cb)] = timers a \<or>
      timers a @ [(delay, cb)] = timers a @ [(12000, confirmation val)]"
    using assms(2) by (simp add: setTargetDoorState_timers split: if_splits)
  then have "delay = 12000" and "cb = confirmation val" by simp_all
  then show ?thesis by (simp add: fireTimer_confirmation)
qed

text \<open>
  The theorem at a successful request to open a closed machine, whose timer fires when the
  machine has meanwhile been forced to stuck: CurrentDoorState becomes OPEN all the same.
\<close>

theorem confirmation_timer_unconditional_witness:
  "setTargetDoorState TargetDoorState_OPEN (Resolved ()) (sample_accessory ''closed'' False) =
     Resolved ((sample_accessory ''closed'' False)
       \<lparr>fsm := sample_fsm ''closed'' True, currentDoorState := OPENING,
        timers := [(12000, ConfirmOPEN)],
        trace := [Log_debug (SetTarget 0), Api_open ''dev1'' sample_meta]\<rparr>) \<and>
   fireTimer ConfirmOPEN (sample_accessory ''stuck'' False) =
     (sample_accessory ''stuck'' False)\<lparr>currentDoorState := OPEN, trace := [Log_debug TransitionedOpen]\<rparr>"
proof -
  let ?a = "sample_accessory ''closed'' False"
  let ?a' = "?a\<lparr>fsm := sample_fsm ''closed'' True, currentDoorState := OPENING,
        timers := [(12000, ConfirmOPEN)],
        trace := [Log_debug (SetTarget 0), Api_open ''dev1'' sample_meta]\<rparr>"
  have run: "setTargetDoorState TargetDoorState_OPEN (Resolved ()) ?a = Resolved ?a'"
    by (simp add: setTargetDoorState_succeeded can_def requested_direction_def target_state_def
        confirmation_def remote_call_def sample_accessory_def sample_fsm_def TargetDoorState_OPEN_def)
  have sched: "timers ?a' = timers ?a @ [(12000, ConfirmOPEN)]"
    by (simp add: sample_accessory_def)
  show ?thesis
    using run confirmation_timer_unconditional [OF run sched, of "sample_accessory ''stuck'' False"]
    by (simp add: terminal_def sample_accessory_def)
qed

subsection \<open>C5: a failed command is absorbed\<close>

text \<open>
  C5.  For every request whose command is issued and whose remote call rejects with an
  error \<open>e\<close>: the handler resolves, the machine is stuck and not transitioning,
  CurrentDoorState is STOPPED, the error is logged, the trace shows the one remote call
  and no second one, and no timer is scheduled.
\<close>

theorem command_failure_absorbed:
  "can (requested_direction val) (fsm a) \<Longrightarrow>
   setTargetDoorState val (Rejected e) a =
     Resolved (a\<lparr>fsm := (fsm a)\<lparr>state := ''stuck'', transitioning := False\<rparr>,
                currentDoorState := STOPPED,
                trace := trace a @ [Log_debug (SetTarget val), remote_call val a,
                                    Log_error (ProblemDetected e)]\<rparr>)"
  by (rule setTargetDoorState_failed)

text \<open>The theorem at a request to open a closed, idle machine whose remote call times out.\<close>

theorem command_failure_absorbed_witness:
  "can (requested_direction TargetDoorState_OPEN) (fsm (sample_accessory ''closed'' False)) \<and>
   setTargetDoorState TargetDoorState_OPEN (Rejected (Error ''timeout'')) (sample_accessory ''closed'' False) =
     Resolved ((sample_accessory ''closed'' False)
       \<lparr>fsm := sample_fsm ''stuck'' False, currentDoorState := STOPPED,
        trace := [Log_debug (SetTarget 0), Api_open ''dev1'' sample_meta,
                  Log_error (ProblemDetected (Error ''timeout''))]\<rparr>)"
proof -
  have c: "can (requested_direction TargetDoorState_OPEN) (fsm (sample_accessory ''closed'' False))"
    by (simp add: can_def requested_direction_def target_state_def sample_accessory_def sample_fsm_def)
  show ?thesis
    using c command_failure_absorbed [OF c, of "Error ''timeout''"]
    by (simp add: remote_call_def sample_accessory_def sample_fsm_def TargetDoorState_OPEN_def)
qed

subsection \<open>C6: reconciliation is idempotent\<close>

text \<open>
  C6.  For every machine that is not transitioning, a second firing in a row with the
  same settled poll leaves the machine as the first did; with a poll that returned a
  record, the second firing changes nothing but the trace, to which it adds its two debug
  lines and its poll; and when local and remote do not disagree, so does the first.
\<close>

theorem reconciliation_idempotent:
  assumes "\<not> isTransitioning (fsm a)"
  shows "fsm (interval_fire getTime settled (interval_fire getTime settled a)) =
           fsm (interval_fire getTime settled a) \<and>
         interval_fire getTime (Resolved d) (interval_fire getTime (Resolved d) a) =
           (interval_fire getTime (Resolved d) a)
             \<lparr>trace := trace (interval_fire getTime (Resolved d) a) @ poll_events a d\<rparr> \<and>
         (\<not> spec_disagree (state (fsm a)) (DeviceStatus d) \<longrightarrow>
           interval_fire getTime (Resolved d) a = a\<lparr>trace := trace a @ poll_events a d\<rparr>)"
proof (intro conjI impI)
  show "fsm (interval_fire getTime settled (interval_fire getTime settled a)) =
        fsm (interval_fire getTime settled a)"
    by (rule interval_fire_twice_fsm [OF assms])
  show "interval_fire getTime (Resolved d) (interval_fire getTime (Resolved d) a) =
        (interval_fire getTime (Resolved d) a)
          \<lparr>trace := trace (interval_fire getTime (Resolved d) a) @ poll_events a d\<rparr>"
    by (rule interval_fire_twice_Resolved [OF assms])
  show "interval_fire getTime (Resolved d) a = a\<lparr>trace := trace a @ poll_events a d\<rparr>"
    if "\<not> spec_disagree (state (fsm a)) (DeviceStatus d)"
    by (rule interval_fire_agree [OF assms that])
qed

text \<open>
  The theorem at an open, idle machine: polls returning Closed reset it once, and a poll
  returning Open is a no-op.
\<close>

theorem reconciliation_idempotent_witness:
  "\<not> isTransitioning (fsm (sample_accessory ''open'' False)) \<and>
   fsm (interval_fire sample_getTime (Resolved (sample_device (Some 2))) (sample_accessory ''open'' False)) =
     \<lparr>state = ''closed'', transitioning = False, lastTransition = Num 1000, deviceId = ''dev1''\<rparr> \<and>
   fsm (interval_fire sample_getTime (Resolved (sample_device (Some 2)))
         (interval_fire sample_getTime (Resolved (sample_device (Some 2))) (sample_accessory ''open'' False))) =
     \<lparr>state = ''closed'', transitioning = False, lastTransition = Num 1000, deviceId = ''dev1''\<rparr> \<and>
   \<not> spec_disagree (state (fsm (sample_accessory ''open'' False))) (DeviceStatus (sample_device (Some 1))) \<and>
   interval_fire sample_getTime (Resolved (sample_device (Some 1))) (sample_accessory ''open'' False) =
     (sample_accessory ''open'' False)
       \<lparr>trace := [Log_debug CheckingStatus, Api_getDeviceState ''dev1'', Log_debug (StatusFromApi (Some 1))]\<rparr>"
proof -
  let ?a = "sample_accessory ''open'' False"
  have idle: "\<not> isTransitioning (fsm ?a)"
    by (simp add: isTransitioning_def sample_accessory_def sample_fsm_def)
  have once: "fsm (interval_fire sample_getTime (Resolved (sample_device (Some 2))) ?a) =
     \<lparr>state = ''closed'', transitioning = False, lastTransition = Num 1000, deviceId = ''dev1''\<rparr>"
    using idle
    by (simp add: interval_fire_fsm_Resolved spec_disagree_def spec_reset_def spec_reset_state_def
        sample_accessory_def sample_fsm_def sample_device_def sample_getTime_def
        GarageDoorState_Open_def GarageDoorState_Closed_def)
  have agree: "\<not> spec_disagree (state (fsm ?a)) (DeviceStatus (sample_device (Some 1)))"
    by (simp add: spec_disagree_def sample_accessory_def sample_fsm_def sample_device_def
        GarageDoorState_Open_def)
  have pe: "poll_events ?a (sample_device (Some 1)) =
      [Log_debug CheckingStatus, Api_getDeviceState ''dev1'', Log_debug (StatusFromApi (Some 1))]"
    by (simp add: poll_events_def sample_accessory_def sample_fsm_def sample_device_def)
  have tr: "trace ?a = []" by (simp add: sample_accessory_def)
  from reconciliation_idempotent [OF idle, of sample_getTime "Resolved (sample_device (Some 2))"
      "sample_device (Some 1)"]
  have twice: "fsm (interval_fire sample_getTime (Resolved (sample_device (Some 2)))
         (interval_fire sample_getTime (Resolved (sample_device (Some 2))) ?a)) =
       fsm (interval_fire sample_getTime (Resolved (sample_device (Some 2))) ?a)"
    and noop: "interval_fire sample_getTime (Resolved (sample_device (Some 1))) ?a =
       ?a\<lparr>trace := trace ?a @ poll_events ?a (sample_device (Some 1))\<rparr>"
    using agree by blast+
  show ?thesis
    using idle once agree twice noop by (simp only: pe tr append_Nil simp_thms)
qed

subsection \<open>C7: the adapter substitutes the default metadata\<close>

text \<open>
  C7.  For every underlying operation, \<^verbatim>\<open>open\<close> and \<^verbatim>\<open>close\<close> of the adapter are that
  operation applied once to the device id and to the default metadata when the argument
  is left out (or is \<^verbatim>\<open>null\<close>), and to the caller's metadata, unchanged, when it is given;
  the result is the operation's own, so a failure is handed back and not retried.  The
  default the constructor binds is the device's own \<^verbatim>\<open>{DeviceType, ProductCode}\<close>: a call
  without metadata through the adapter of a constructed accessory reaches the underlying
  operation with exactly that record, and so does the command of a request, whose remote
  call carries the device's id and that record.  The adapter has no state: the bound
  metadata is the same after every firing, every timer and every request.
\<close>

theorem adapter_defaults_metadata:
  "clientAdapter_open boundOpen meta dev Undefined = boundOpen dev meta \<and>
   clientAdapter_open boundOpen meta dev (Supplied given) = boundOpen dev given \<and>
   clientAdapter_open boundOpen meta dev Null = boundOpen dev meta \<and>
   clientAdapter_close boundClose meta dev Undefined = boundClose dev meta \<and>
   clientAdapter_close boundClose meta dev (Supplied given) = boundClose dev given \<and>
   clientAdapter_close boundClose meta dev Null = boundClose dev meta \<and>
   deviceMeta (NXG200_constructor getTime fsm0 cur0 device) =
     \<lparr>meta_DeviceType = DeviceType device, meta_ProductCode = ProductCode device\<rparr> \<and>
   clientAdapter_open boundOpen (deviceMeta (NXG200_constructor getTime fsm0 cur0 device)) dev Undefined =
     boundOpen dev \<lparr>meta_DeviceType = DeviceType device, meta_ProductCode = ProductCode device\<rparr> \<and>
   clientAdapter_close boundClose (deviceMeta (NXG200_constructor getTime fsm0 cur0 device)) dev Undefined =
     boundClose dev \<lparr>meta_DeviceType = DeviceType device, meta_ProductCode = ProductCode device\<rparr> \<and>
   (can Dir_open (fsm (NXG200_constructor getTime fsm0 cur0 device)) \<longrightarrow>
      trace (fst (setTargetDoorState_begin TargetDoorState_OPEN (NXG200_constructor getTime fsm0 cur0 device))) =
        [reset_logline device, Log_debug (SetTarget TargetDoorState_OPEN),
         Api_open (DeviceId device)
           \<lparr>meta_DeviceType = DeviceType device, meta_ProductCode = ProductCode device\<rparr>]) \<and>
   (can Dir_close (fsm (NXG200_constructor getTime fsm0 cur0 device)) \<longrightarrow>
      trace (fst (setTargetDoorState_begin TargetDoorState_CLOSED (NXG200_constructor getTime fsm0 cur0 device))) =
        [reset_logline device, Log_debug (SetTarget TargetDoorState_CLOSED),
         Api_close (DeviceId device)
           \<lparr>meta_DeviceType = DeviceType device, meta_ProductCode = ProductCode device\<rparr>]) \<and>
   deviceMeta (interval_fire getTime settled a) = deviceMeta a \<and>
   deviceMeta (fireTimer cb a) = deviceMeta a \<and>
   (setTargetDoorState val command a = Resolved a' \<longrightarrow> deviceMeta a' = deviceMeta a)"
proof -
  let ?A = "NXG200_constructor getTime fsm0 cur0 device"
  let ?m = "\<lparr>meta_DeviceType = DeviceType device, meta_ProductCode = ProductCode device\<rparr>"
  have adapter:
    "clientAdapter_open boundOpen meta dev Undefined = boundOpen dev meta"
    "clientAdapter_open boundOpen meta dev (Supplied given) = boundOpen dev given"
    "clientAdapter_open boundOpen meta dev Null = boundOpen dev meta"
    "clientAdapter_close boundClose meta dev Undefined = boundClose dev meta"
    "clientAdapter_close boundClose meta dev (Supplied given) = boundClose dev given"
    "clientAdapter_close boundClose meta dev Null = boundClose dev meta"
    by (simp_all add: clientAdapter_open_def clientAdapter_close_def nullish_def)
  have bound: "deviceMeta ?A = ?m" by (rule constructor_deviceMeta)
  have o: "clientAdapter_open boundOpen (deviceMeta ?A) dev Undefined = boundOpen dev ?m"
    by (simp add: bound clientAdapter_open_def nullish_def)
  have c: "clientAdapter_close boundClose (deviceMeta ?A) dev Undefined = boundClose dev ?m"
    by (simp add: bound clientAdapter_close_def nullish_def)
  have ro: "trace (fst (setTargetDoorState_begin TargetDoorState_OPEN ?A)) =
        [reset_logline device, Log_debug (SetTarget TargetDoorState_OPEN), Api_open (DeviceId device) ?m]"
    if "can Dir_open (fsm ?A)"
  proof -
    have "can (requested_direction TargetDoorState_OPEN) (fsm ?A)"
      using that by (simp add: requested_direction_def)
    from issued_trace [OF this] show ?thesis
      by (simp add: constructor_trace remote_call_def constructor_deviceId bound)
  qed
  have rc: "trace (fst (setTargetDoorState_begin TargetDoorState_CLOSED ?A)) =
        [reset_logline device, Log_debug (SetTarget TargetDoorState_CLOSED), Api_close (DeviceId device) ?m]"
    if "can Dir_close (fsm ?A)"
  proof -
    have "can (requested_direction TargetDoorState_CLOSED) (fsm ?A)"
      using that by (simp add: requested_direction_def TargetDoorState_OPEN_def TargetDoorState_CLOSED_def)
    from issued_trace [OF this] show ?thesis
      by (simp add: constructor_trace remote_call_def constructor_deviceId bound
          TargetDoorState_OPEN_def TargetDoorState_CLOSED_def)
  qed
  show ?thesis
    using adapter bound o c ro rc deviceMeta_interval_fire [of getTime settled a]
      deviceMeta_fireTimer [of cb a] deviceMeta_setTargetDoorState [of val command a a']
    by blast
qed

text \<open>
  The theorem over an operation that counts its invocations and always fails (one
  invocation each, with the default and with the caller's metadata), and at accessories
  constructed for a gate and for a garage door, whose commands reach the remote API with
  the metadata of their device.
\<close>

theorem adapter_defaults_metadata_witness:
  "clientAdapter_open counting_client sample_meta ''dev1'' Undefined 0 =
     ((Rejected (Error ''unreachable''), (''dev1'', sample_meta)), 1) \<and>
   clientAdapter_close counting_client sample_meta ''dev1''
       (Supplied \<lparr>meta_DeviceType = None, meta_ProductCode = ''NXGT1''\<rparr>) 0 =
     ((Rejected (Error ''unreachable''), (''dev1'', \<lparr>meta_DeviceType = None, meta_ProductCode = ''NXGT1''\<rparr>)), 1) \<and>
   deviceMeta (NXG200_constructor sample_getTime (sample_fsm ''open'' False) CLOSED sample_gate) =
     \<lparr>meta_DeviceType = Some ''NexxGate'', meta_ProductCode = ''NXGT1''\<rparr> \<and>
   can Dir_open (fsm (NXG200_constructor sample_getTime (sample_fsm ''open'' False) CLOSED sample_gate)) \<and>
   trace (fst (setTargetDoorState_begin TargetDoorState_OPEN
                 (NXG200_constructor sample_getTime (sample_fsm ''open'' False) CLOSED sample_gate))) =
     [Log_info (ResettingClosed (Some 2) ''1970-01-01T00:00:01Z''), Log_debug (SetTarget 0),
      Api_open ''gate1'' \<lparr>meta_DeviceType = Some ''NexxGate'', meta_ProductCode = ''NXGT1''\<rparr>] \<and>
   can Dir_close (fsm (NXG200_constructor sample_getTime (sample_fsm ''closed'' False) CLOSED (sample_device (Some 1)))) \<and>
   trace (fst (setTargetDoorState_begin TargetDoorState_CLOSED
                 (NXG200_constructor sample_getTime (sample_fsm ''closed'' False) CLOSED (sample_device (Some 1))))) =
     [Log_info (ResettingOpen (Some 1) ''1970-01-01T00:00:01Z''), Log_debug (SetTarget 1),
      Api_close ''dev1'' \<lparr>meta_DeviceType = Some ''NexxGarage'', meta_ProductCode = ''NXG200''\<rparr>]"
proof -
  let ?G = "NXG200_constructor sample_getTime (sample_fsm ''open'' False) CLOSED sample_gate"
  let ?D = "NXG200_constructor sample_getTime (sample_fsm ''closed'' False) CLOSED (sample_device (Some 1))"
  have co: "can Dir_open (fsm ?G)"
    by (simp add: constructor_eq can_def target_state_def spec_reset_def spec_reset_state_def
        sample_gate_def GarageDoorState_Open_def GarageDoorState_Closed_def)
  have cc: "can Dir_close (fsm ?D)"
    by (simp add: constructor_eq can_def target_state_def spec_reset_def spec_reset_state_def
        sample_device_def GarageDoorState_Open_def GarageDoorState_Closed_def)
  have run: "setTargetDoorState TargetDoorState_OPEN (Resolved ()) (sample_accessory ''open'' False) =
     Resolved ((sample_accessory ''open'' False)
       \<lparr>currentDoorState := OPENING, timers := [(12000, ConfirmOPEN)],
        trace := [Log_debug (SetTarget 0), Log_warn AttemptingOpenBut]\<rparr>)"
    by (simp add: setTargetDoorState_def setTargetDoorState_begin_def can_def target_state_def
      TargetDoorState_OPEN_def sample_accessory_def sample_fsm_def emit_def
      setCurrentDoorState_def setTimeout_def Let_def)
  show ?thesis
    using co cc
      adapter_defaults_metadata [of counting_client sample_meta "''dev1''"
        "\<lparr>meta_DeviceType = None, meta_ProductCode = ''NXGT1''\<rparr>" counting_client
        sample_getTime "sample_fsm ''open'' False" CLOSED sample_gate
        "Resolved (sample_device (Some 1))" "sample_accessory ''open'' False" ConfirmOPEN
        TargetDoorState_OPEN "Resolved ()"
        "(sample_accessory ''open'' False)
           \<lparr>currentDoorState := OPENING, timers := [(12000, ConfirmOPEN)],
            trace := [Log_debug (SetTarget 0), Log_warn AttemptingOpenBut]\<rparr>"]
      adapter_defaults_metadata [of counting_client sample_meta "''dev1''"
        "\<lparr>meta_DeviceType = None, meta_ProductCode = ''NXGT1''\<rparr>" counting_client
        sample_getTime "sample_fsm ''closed'' False" CLOSED "sample_device (Some 1)"
        "Resolved (sample_device (Some 1))" "sample_accessory ''open'' False" ConfirmOPEN
        TargetDoorState_OPEN "Resolved ()"
        "(sample_accessory ''open'' False)
           \<lparr>currentDoorState := OPENING, timers := [(12000, ConfirmOPEN)],
            trace := [Log_debug (SetTarget 0), Log_warn AttemptingOpenBut]\<rparr>"]
    by (simp add: counting_client_def run sample_gate_def sample_device_def reset_logline_def
        GarageDoorState_Open_def GarageDoorState_Closed_def
        TargetDoorState_OPEN_def TargetDoorState_CLOSED_def)
qed

subsection \<open>C8: getCurrentDoorState\<close>

text \<open>
  C8.  \<^verbatim>\<open>getCurrentDoorState\<close> returns OPENING for open and transitioning, OPEN for open and
  not transitioning, CLOSING for closed and transitioning, CLOSED for closed and not
  transitioning, and STOPPED for every other state; it changes nothing but the trace.
\<close>

theorem current_door_state_mapping:
  "(state (fsm a) = ''open'' \<and> isTransitioning (fsm a) \<longrightarrow> fst (getCurrentDoorState a) = OPENING) \<and>
   (state (fsm a) = ''open'' \<and> \<not> isTransitioning (fsm a) \<longrightarrow> fst (getCurrentDoorState a) = OPEN) \<and>
   (state (fsm a) = ''closed'' \<and> isTransitioning (fsm a) \<longrightarrow> fst (getCurrentDoorState a) = CLOSING) \<and>
   (state (fsm a) = ''closed'' \<and> \<not> isTransitioning (fsm a) \<longrightarrow> fst (getCurrentDoorState a) = CLOSED) \<and>
   (state (fsm a) \<noteq> ''open'' \<and> state (fsm a) \<noteq> ''closed'' \<longrightarrow> fst (getCurrentDoorState a) = STOPPED) \<and>
   snd (getCurrentDoorState a) = a\<lparr>trace := trace a @ [Log_debug GetCurrent]\<rparr>"
  by (simp add: getCurrentDoorState_def emit_def Let_def)

text \<open>The theorem at each of the five cases, stuck standing for the other states.\<close>

theorem current_door_state_mapping_witness:
  "fst (getCurrentDoorState (sample_accessory ''open'' True)) = OPENING \<and>
   fst (getCurrentDoorState (sample_accessory ''open'' False)) = OPEN \<and>
   fst (getCurrentDoorState (sample_accessory ''closed'' True)) = CLOSING \<and>
   fst (getCurrentDoorState (sample_accessory ''closed'' False)) = CLOSED \<and>
   fst (getCurrentDoorState (sample_accessory ''stuck'' False)) = STOPPED \<and>
   fst (getCurrentDoorState (sample_accessory ''stuck'' True)) = STOPPED"
  using current_door_state_mapping [of "sample_accessory ''open'' True"]
    current_door_state_mapping [of "sample_accessory ''open'' False"]
    current_door_state_mapping [of "sample_accessory ''closed'' True"]
    current_door_state_mapping [of "sample_accessory ''closed'' False"]
    current_door_state_mapping [of "sample_accessory ''stuck'' False"]
    current_door_state_mapping [of "sample_accessory ''stuck'' True"]
  by (simp add: isTransitioning_def sample_accessory_def sample_fsm_def)

subsection \<open>C9: getTargetDoorState\<close>

text \<open>
  C9.  \<^verbatim>\<open>getTargetDoorState\<close> returns OPEN for the state open, CLOSED for the state closed,
  and CLOSED for every other state, stuck among them.
\<close>

theorem target_door_state_mapping:
  "(state (fsm a) = ''open'' \<longrightarrow> fst (getTargetDoorState a) = TargetDoorState_OPEN) \<and>
   (state (fsm a) = ''closed'' \<longrightarrow> fst (getTargetDoorState a) = TargetDoorState_CLOSED) \<and>
   (state (fsm a) \<noteq> ''open'' \<and> state (fsm a) \<noteq> ''closed'' \<longrightarrow>
      fst (getTargetDoorState a) = TargetDoorState_CLOSED) \<and>
   snd (getTargetDoorState a) = a\<lparr>trace := trace a @ [Log_debug GetTarget]\<rparr>"
  by (simp add: getTargetDoorState_def emit_def Let_def)

text \<open>The theorem at the states open, closed and stuck.\<close>

theorem target_door_state_mapping_witness:
  "fst (getTargetDoorState (sample_accessory ''open'' False)) = 0 \<and>
   fst (getTargetDoorState (sample_accessory ''closed'' False)) = 1 \<and>
   fst (getTargetDoorState (sample_accessory ''stuck'' False)) = 1"
  using target_door_state_mapping [of "sample_accessory ''open'' False"]
    target_door_state_mapping [of "sample_accessory ''closed'' False"]
    target_door_state_mapping [of "sample_accessory ''stuck'' False"]
  by (simp add: sample_accessory_def sample_fsm_def TargetDoorState_OPEN_def TargetDoorState_CLOSED_def)

subsection \<open>C10: the category does not depend on treatGateAsGarage\<close>

text \<open>
  C10.  Two configurations that agree on \<^verbatim>\<open>includeGate\<close>, whatever their
  \<^verbatim>\<open>treatGateAsGarage\<close>, make \<^verbatim>\<open>discoverDevices\<close> act alike on every list of devices and
  every cache, and every accessory it registers has the category GARAGE_DOOR_OPENER.
\<close>

theorem category_ignores_treatGateAsGarage:
  "(includeGate config1 = includeGate config2 \<longrightarrow>
      discoverDevices gen config1 accessories devices = discoverDevices gen config2 accessories devices) \<and>
   set (registered_categories (discoverDevices gen config accessories devices)) \<subseteq> {GARAGE_DOOR_OPENER} \<and>
   category is_gate treat = GARAGE_DOOR_OPENER"
proof (intro conjI impI)
  assume "includeGate config1 = includeGate config2"
  then show "discoverDevices gen config1 accessories devices = discoverDevices gen config2 accessories devices"
    using registerDevices_treat [of gen "includeGate config2" "treatGateAsGarage config1"
        accessories devices "treatGateAsGarage config2"]
    by (simp add: discoverDevices_def)
next
  obtain acts ids where
    r: "registerDevices gen (includeGate config) (treatGateAsGarage config) accessories devices = (acts, ids)"
    by (cases "registerDevices gen (includeGate config) (treatGateAsGarage config) accessories devices")
  have "set (registered_categories acts) \<subseteq> {GARAGE_DOOR_OPENER}"
    using registerDevices_categories [of gen "includeGate config" "treatGateAsGarage config" accessories devices]
    by (simp add: r)
  then show "set (registered_categories (discoverDevices gen config accessories devices)) \<subseteq> {GARAGE_DOOR_OPENER}"
    by (simp add: discoverDevices_def r registered_categories_append_Unregister)
next
  show "category is_gate treat = GARAGE_DOOR_OPENER" by (simp add: category_def)
qed

text \<open>
  The theorem at a gate and a garage door, with \<^verbatim>\<open>treatGateAsGarage\<close> false and true.
\<close>

theorem category_ignores_treatGateAsGarage_witness:
  "treatGateAsGarage (sample_config (JBool False)) \<noteq> treatGateAsGarage (sample_config (JBool True)) \<and>
   includeGate (sample_config (JBool False)) = includeGate (sample_config (JBool True)) \<and>
   discoverDevices id (sample_config (JBool False)) [] [sample_gate, sample_device (Some 1)] =
     [Register ''Gate'' ''gate1'' GARAGE_DOOR_OPENER, Register ''Garage'' ''dev1'' GARAGE_DOOR_OPENER] \<and>
   discoverDevices id (sample_config (JBool True)) [] [sample_gate, sample_device (Some 1)] =
     [Register ''Gate'' ''gate1'' GARAGE_DOOR_OPENER, Register ''Garage'' ''dev1'' GARAGE_DOOR_OPENER]"
proof -
  have incl: "includeGate (sample_config (JBool False)) = includeGate (sample_config (JBool True))"
    by (simp add: includeGate_def sample_config_def)
  have run: "discoverDevices id (sample_config (JBool True)) [] [sample_gate, sample_device (Some 1)] =
     [Register ''Gate'' ''gate1'' GARAGE_DOOR_OPENER, Register ''Garage'' ''dev1'' GARAGE_DOOR_OPENER]"
    by (simp add: discoverDevices_def includeGate_def treatGateAsGarage_def sample_config_def
        sample_gate_def sample_device_def isGarage_def isGate_def category_def truthy_def Let_def)
  have diff: "treatGateAsGarage (sample_config (JBool False)) \<noteq> treatGateAsGarage (sample_config (JBool True))"
    by (simp add: treatGateAsGarage_def sample_config_def)
  from category_ignores_treatGateAsGarage [of "sample_config (JBool False)" "sample_config (JBool True)"
      id "[]" "[sample_gate, sample_device (Some 1)]"]
  have "discoverDevices id (sample_config (JBool False)) [] [sample_gate, sample_device (Some 1)] =
        discoverDevices id (sample_config (JBool True)) [] [sample_gate, sample_device (Some 1)]"
    using incl by blast
  then show ?thesis using incl run diff by simp
qed

end
